theory Spec2Isabelle
  imports Complex_Main "HOL-Library.Sublist"
begin

section \<open>Carrier adapters: Australia Post rates and Purolator shipping documents\<close>

text \<open>
  A shallow embedding of two adapter modules:
  \<^item> \<^verbatim>\<open>purplship/carriers/aups/shipping/shipping_price.py\<close>: the Australia Post rate
    request builder and rate response parser;
  \<^item> \<^verbatim>\<open>purplship/providers/purolator/shipment/documents.py\<close>: the Purolator
    shipping documents request builder.

  Python objects are records, one field per attribute the modules read or set. An
  attribute that may hold \<^verbatim>\<open>None\<close> has an option type. Where two classes have an
  attribute of the same name, or the name is taken in HOL (\<^verbatim>\<open>id\<close>, \<^verbatim>\<open>length\<close>) or is
  no HOL name (\<^verbatim>\<open>from_\<close>), the field carries the class as a prefix. Numbers are only
  passed through by these modules, so their type is a parameter (\<open>'n\<close>).
\<close>

subsection \<open>Python values\<close>

text \<open>Truthiness of an optional string: \<^verbatim>\<open>None\<close> and \<^verbatim>\<open>""\<close> are falsy.\<close>

definition truthy :: "string option \<Rightarrow> bool" where
  "truthy s = (case s of None \<Rightarrow> False | Some v \<Rightarrow> v \<noteq> [])"

text \<open>The name of an enum member is its identifier: \<^verbatim>\<open>Country.AU.name\<close>,
  \<^verbatim>\<open>Currency.AUD.name\<close>.\<close>

definition Country_AU_name :: string where
  "Country_AU_name = ''AU''"

definition Currency_AUD_name :: string where
  "Currency_AUD_name = ''AUD''"

text \<open>\<^verbatim>\<open>Serializable(request, _request_serializer)\<close> pairs the built object with the
  module's serializer. Each module has one fixed serializer, so the pair is determined
  by the object it wraps.\<close>

datatype 'a Serializable = Serializable (wrapped: 'a)

subsection \<open>The unified payload\<close>

record Address =
  person_name :: "string option"
  company_name :: "string option"
  address_line1 :: "string option"
  address_line2 :: "string option"
  suburb :: "string option"
  state_code :: "string option"
  postal_code :: "string option"
  country_code :: "string option"
  phone_number :: "string option"
  email :: "string option"

record 'n Parcel =
  parcel_id :: "string option"
  reference :: "string option"
  description :: "string option"
  parcel_length :: "'n option"
  width :: "'n option"
  height :: "'n option"
  weight :: "'n option"
  packaging_type :: "string option"

record 'n RateRequest =
  shipper :: Address
  recipient :: Address
  parcel :: "'n Parcel"

subsection \<open>The Australia Post rate request (classes of \<^verbatim>\<open>pyaups.shipping_price_request\<close>)\<close>

record From =
  from_name :: "string option"
  from_type :: "string option"
  from_lines :: "string option list"
  from_suburb :: "string option"
  from_state :: "string option"
  from_postcode :: "string option"
  from_country :: "string option"
  from_phone :: "string option"
  from_email :: "string option"

record To =
  to_name :: "string option"
  to_business_name :: "string option"
  to_type :: "string option"
  to_lines :: "string option list"
  to_suburb :: "string option"
  to_state :: "string option"
  to_postcode :: "string option"
  to_country :: "string option"
  to_phone :: "string option"
  to_email :: "string option"
  to_delivery_instructions :: "string option"

record 'n Item =
  item_reference :: "string option"
  product_id :: "string option"
  item_description :: "string option"
  item_length :: "'n option"
  item_width :: "'n option"
  item_height :: "'n option"
  cubic_volume :: "'n option"
  item_weight :: "'n option"
  contains_dangerous_goods :: "bool option"
  transportable_by_air :: "bool option"
  dangerous_goods_declaration :: "string option"
  authority_to_leave :: "bool option"
  reason_for_return :: "string option"
  allow_partial_delivery :: "bool option"
  item_packaging_type :: "string option"
  atl_number :: "string option"
  item_features :: "string option"
  tracking_details :: "string option"
  commercial_value :: "bool option"
  export_declaration_number :: "string option"
  import_reference_number :: "string option"
  classification_type :: "string option"
  description_of_other :: "string option"
  international_parcel_sender_name :: "string option"
  non_delivery_action :: "string option"
  certificate_number :: "string option"
  licence_number :: "string option"
  invoice_number :: "string option"
  comments :: "string option"
  tariff_concession :: "string option"
  free_trade_applicable :: "bool option"

record 'n Shipment =
  shipment_reference :: "string option"
  sender_references :: "string list option"
  goods_descriptions :: "string list option"
  despatch_date :: "string option"
  consolidate :: "bool option"
  email_tracking_enabled :: "bool option"
  shipment_from :: From
  to :: To
  dangerous_goods :: "string option"
  movement_type :: "string option"
  features :: "string option"
  authorisation_number :: "string option"
  items :: "'n Item list"

record 'n ShippingPriceRequest =
  shipments :: "'n Shipment list"

subsection \<open>Building the rate request\<close>

datatype error = OriginNotServicedError "string option" string

text \<open>
  \<^verbatim>\<open>next((t.value for t in PackagingType if t.name == payload.parcel.packaging_type), None)\<close>.
  The enum \<^verbatim>\<open>PackagingType\<close> (\<^verbatim>\<open>purplship.carriers.aups.units\<close>) is a parameter: its
  members in definition order, each a pair of name and value.
\<close>

definition packaging_type_of :: "(string \<times> string) list \<Rightarrow> string option \<Rightarrow> string option" where
  "packaging_type_of PackagingType requested =
     (case find (\<lambda>t. Some (fst t) = requested) PackagingType of
        None \<Rightarrow> None
      | Some t \<Rightarrow> Some (snd t))"

definition shipping_price_request ::
  "(string \<times> string) list \<Rightarrow> 'n RateRequest \<Rightarrow> error + 'n ShippingPriceRequest Serializable" where
  "shipping_price_request PackagingType payload =
     (if truthy (country_code (shipper payload))
         \<and> country_code (shipper payload) \<noteq> Some Country_AU_name
      then Inl (OriginNotServicedError (country_code (shipper payload)) ''Australia post'')
      else
        let packaging = packaging_type_of PackagingType (packaging_type (parcel payload));
            request = \<lparr>shipments = [
              \<lparr>shipment_reference = reference (parcel payload),
               sender_references = None,
               goods_descriptions = None,
               despatch_date = None,
               consolidate = None,
               email_tracking_enabled = Some (email (shipper payload) \<noteq> None),
               shipment_from = \<lparr>
                 from_name = person_name (shipper payload),
                 from_type = None,
                 from_lines = [
                   address_line1 (shipper payload),
                   address_line2 (shipper payload)],
                 from_suburb = suburb (shipper payload),
                 from_state = state_code (shipper payload),
                 from_postcode = postal_code (shipper payload),
                 from_country = country_code (shipper payload),
                 from_phone = phone_number (shipper payload),
                 from_email = email (shipper payload)\<rparr>,
               to = \<lparr>
                 to_name = person_name (recipient payload),
                 to_business_name = company_name (recipient payload),
                 to_type = None,
                 to_lines = [
                   address_line1 (recipient payload),
                   address_line2 (recipient payload)],
                 to_suburb = suburb (recipient payload),
                 to_state = state_code (recipient payload),
                 to_postcode = postal_code (recipient payload),
                 to_country = country_code (recipient payload),
                 to_phone = phone_number (recipient payload),
                 to_email = email (recipient payload),
                 to_delivery_instructions = None\<rparr>,
               dangerous_goods = None,
               movement_type = None,
               features = None,
               authorisation_number = None,
               items = [
                 \<lparr>item_reference = reference (parcel payload),
                  product_id = parcel_id (parcel payload),
                  item_description = description (parcel payload),
                  item_length = parcel_length (parcel payload),
                  item_width = width (parcel payload),
                  item_height = height (parcel payload),
                  cubic_volume = None,
                  item_weight = weight (parcel payload),
                  contains_dangerous_goods = None,
                  transportable_by_air = None,
                  dangerous_goods_declaration = None,
                  authority_to_leave = Some False,
                  reason_for_return = None,
                  allow_partial_delivery = Some True,
                  item_packaging_type = packaging,
                  atl_number = None,
                  item_features = None,
                  tracking_details = None,
                  commercial_value = None,
                  export_declaration_number = None,
                  import_reference_number = None,
                  classification_type = None,
                  description_of_other = None,
                  international_parcel_sender_name = None,
                  non_delivery_action = None,
                  certificate_number = None,
                  licence_number = None,
                  invoice_number = None,
                  comments = None,
                  tariff_concession = None,
                  free_trade_applicable = None\<rparr>]\<rparr>]\<rparr>
        in Inr (Serializable request))"

text \<open>
  \<^verbatim>\<open>_request_serializer\<close> of the rate module: the request as a plain mapping, then as
  a JSON string. The helpers \<^verbatim>\<open>to_dict\<close> and \<^verbatim>\<open>jsonify\<close> (\<^verbatim>\<open>purplship.core.utils\<close>) are
  parameters.
\<close>

definition request_serializer :: "('d \<Rightarrow> string) \<Rightarrow> ('r \<Rightarrow> 'd) \<Rightarrow> 'r \<Rightarrow> string" where
  "request_serializer jsonify to_dict request = jsonify (to_dict request)"

subsection \<open>Parsing the rate response (classes of \<^verbatim>\<open>pyaups.shipping_price_response\<close>)\<close>

record 'n ShipmentSummary =
  fuel_surcharge :: "'n option"
  security_surcharge :: "'n option"
  transit_cover :: "'n option"
  freight_charge :: "'n option"
  total_cost_ex_gst :: "'n option"
  total_gst :: "'n option"
  total_cost :: "'n option"
  discount :: "'n option"

record 'n ResponseShipment =
  shipment_summary :: "'n ShipmentSummary option"

text \<open>\<^verbatim>\<open>ShipmentSummary()\<close>: every attribute is \<^verbatim>\<open>None\<close>.\<close>

definition ShipmentSummary_empty :: "'n ShipmentSummary" where
  "ShipmentSummary_empty =
     \<lparr>fuel_surcharge = None, security_surcharge = None, transit_cover = None,
      freight_charge = None, total_cost_ex_gst = None, total_gst = None,
      total_cost = None, discount = None\<rparr>"

text \<open>
  The raw response is a dictionary. \<^verbatim>\<open>ShippingPriceResponse(**response)\<close> (of the
  external library \<^verbatim>\<open>pyaups\<close>) turns it into the typed response whose
  \<^verbatim>\<open>shipments\<close> list the parser iterates; the key \<^verbatim>\<open>errors\<close> is read from the
  dictionary itself and may be missing.
\<close>

record ('n, 'e) response =
  response_shipments :: "'n ResponseShipment list"
  response_errors :: "'e list option"

record 'n ShippingPriceResponse =
  price_response_shipments :: "'n ResponseShipment list"

definition ShippingPriceResponse :: "('n, 'e) response \<Rightarrow> 'n ShippingPriceResponse" where
  "ShippingPriceResponse response = \<lparr>price_response_shipments = response_shipments response\<rparr>"

record Settings =
  settings_carrier :: string
  settings_carrier_name :: string

record 'd ChargeDetails =
  charge_name :: string
  charge_amount :: 'd
  charge_currency :: string

record 'd RateDetails =
  carrier :: string
  carrier_name :: string
  base_charge :: 'd
  duties_and_taxes :: 'd
  total_charge :: 'd
  currency :: string
  rate_discount :: 'd
  extra_charges :: "'d ChargeDetails list"

text \<open>
  \<^verbatim>\<open>_extract_quote\<close>. The helper \<^verbatim>\<open>decimal\<close> (\<^verbatim>\<open>purplship.core.utils\<close>) is a
  parameter: it takes a number or \<^verbatim>\<open>None\<close>. The dictionary \<^verbatim>\<open>surcharges\<close> keeps
  its four distinct keys in insertion order.
\<close>

definition extract_quote ::
  "('n option \<Rightarrow> 'd) \<Rightarrow> 'n ResponseShipment \<Rightarrow> Settings \<Rightarrow> 'd RateDetails" where
  "extract_quote decimal rate settings =
     (let summary = (case shipment_summary rate of
                       None \<Rightarrow> ShipmentSummary_empty
                     | Some s \<Rightarrow> s);
          surcharges = [
            (''Fuel'', fuel_surcharge summary),
            (''Security'', security_surcharge summary),
            (''Transit Cover'', transit_cover summary),
            (''Freight Charge'', freight_charge summary)];
          extra = [\<lparr>charge_name = fst entry, charge_amount = decimal (snd entry),
                     charge_currency = Currency_AUD_name\<rparr>.
                   entry \<leftarrow> surcharges, snd entry \<noteq> None]
      in \<lparr>carrier = settings_carrier settings,
          carrier_name = settings_carrier_name settings,
          base_charge = decimal (total_cost_ex_gst summary),
          duties_and_taxes = decimal (total_gst summary),
          total_charge = decimal (total_cost summary),
          currency = Currency_AUD_name,
          rate_discount = decimal (discount summary),
          extra_charges = extra\<rparr>)"

text \<open>
  \<^verbatim>\<open>parse_shipping_price_response\<close>. The collaborator \<^verbatim>\<open>parse_error_response\<close>
  (\<^verbatim>\<open>purplship.carriers.aups.error\<close>) is a parameter; it receives the list stored under
  the only key, \<^verbatim>\<open>errors\<close>, of the dictionary passed to it, and the settings.
\<close>

definition parse_shipping_price_response ::
  "('n option \<Rightarrow> 'd) \<Rightarrow> ('e list \<Rightarrow> Settings \<Rightarrow> 'm list) \<Rightarrow> ('n, 'e) response \<Rightarrow> Settings
     \<Rightarrow> 'd RateDetails list \<times> 'm list" where
  "parse_shipping_price_response decimal parse_error_response response settings =
     (let price_response = ShippingPriceResponse response
      in ([extract_quote decimal rate settings. rate \<leftarrow> price_response_shipments price_response],
          parse_error_response
            (case response_errors response of None \<Rightarrow> [] | Some errors \<Rightarrow> errors)
            settings))"

subsection \<open>The Purolator shipping documents request\<close>

record ShipmentRequest =
  shipment_request_shipper :: Address
  shipment_request_recipient :: Address
  label_type :: "string option"
  shipment_request_reference :: "string option"

record PurolatorSettings =
  language :: string
  user_token :: string

text \<open>Classes of \<^verbatim>\<open>purolator_lib.shipping_documents_service_1_3_0\<close>.\<close>

record RequestContext =
  Version :: string
  Language :: string
  GroupID :: string
  RequestReference :: "string option"
  UserToken :: string

record PIN =
  Value :: string

record DocumentTypes =
  DocumentType :: "string list"

record DocumentCriteria =
  PIN :: PIN
  DocumentTypes :: DocumentTypes

record ArrayOfDocumentCriteria =
  DocumentCriteria :: "DocumentCriteria list"

record GetDocumentsRequest =
  OutputType :: "string option"
  Synchronous :: bool
  DocumentCriterium :: ArrayOfDocumentCriteria

text \<open>The envelope: the module's serializer reads \<^verbatim>\<open>envelope.Header.anytypeobjs_[0]\<close>
  and \<^verbatim>\<open>envelope.Body.anytypeobjs_[0]\<close>.\<close>

record 'a Header =
  header_anytypeobjs :: "'a list"

record 'a Body =
  body_anytypeobjs :: "'a list"

record ('h, 'b) Envelope =
  Header :: "'h Header"
  Body :: "'b Body"

text \<open>
  Modelled from the spec: \<^verbatim>\<open>create_envelope\<close> of \<^verbatim>\<open>purplship.core.utils.soap\<close> is not
  among the sources. The spec describes a two-part request envelope, header and body,
  wrapping the header content and the body content.
\<close>

definition create_envelope :: "'h \<Rightarrow> 'b \<Rightarrow> ('h, 'b) Envelope" where
  "create_envelope header_content body_content =
     \<lparr>Header = \<lparr>header_anytypeobjs = [header_content]\<rparr>,
      Body = \<lparr>body_anytypeobjs = [body_content]\<rparr>\<rparr>"

text \<open>
  Modelled from the spec: \<^verbatim>\<open>SF.concat_str\<close> of \<^verbatim>\<open>purplship.core.utils\<close> is not among
  the sources. With \<^verbatim>\<open>join=True\<close> the spec has it concatenate its arguments, the
  separator between them.
\<close>

fun join_str :: "string \<Rightarrow> string list \<Rightarrow> string" where
  "join_str separator [] = []"
| "join_str separator [s] = s"
| "join_str separator (s # t # rest) = s @ separator @ join_str separator (t # rest)"

definition concat_str :: "string list \<Rightarrow> string \<Rightarrow> string" where
  "concat_str args separator = join_str separator args"

text \<open>\<^verbatim>\<open>payload.label_type or 'PDF'\<close>: a falsy label type gives the default.\<close>

definition label_type_or :: "string option \<Rightarrow> string \<Rightarrow> string" where
  "label_type_or requested fallback =
     (case requested of None \<Rightarrow> fallback | Some v \<Rightarrow> if v = [] then fallback else v)"

text \<open>
  The first lines of \<^verbatim>\<open>get_shipping_documents_request\<close>. The enum \<^verbatim>\<open>PrintType\<close>
  (\<^verbatim>\<open>purplship.providers.purolator.units\<close>) is a parameter: \<open>PrintType_map_name key\<close> is
  \<^verbatim>\<open>PrintType.map(key).name\<close>, the name of the print type the key maps to, if any.
\<close>

definition is_international :: "ShipmentRequest \<Rightarrow> bool" where
  "is_international payload =
     (country_code (shipment_request_shipper payload)
        \<noteq> country_code (shipment_request_recipient payload))"

definition label_type_name :: "(string \<Rightarrow> string option) \<Rightarrow> ShipmentRequest \<Rightarrow> string option" where
  "label_type_name PrintType_map_name payload =
     PrintType_map_name (label_type_or (label_type payload) ''PDF'')"

definition document_type :: "(string \<Rightarrow> string option) \<Rightarrow> ShipmentRequest \<Rightarrow> string" where
  "document_type PrintType_map_name payload =
     concat_str [
       (if is_international payload then ''International'' else ''Domestic''),
       ''BillOfLading'',
       (if label_type_name PrintType_map_name payload = Some ''ZPL'' then ''Thermal'' else '''')]
       ''''"

definition get_shipping_documents_request ::
  "(string \<Rightarrow> string option) \<Rightarrow> string \<Rightarrow> ShipmentRequest \<Rightarrow> PurolatorSettings
     \<Rightarrow> (RequestContext, GetDocumentsRequest) Envelope Serializable" where
  "get_shipping_documents_request PrintType_map_name pin payload settings =
     (let request = create_envelope
            \<lparr>Version = ''1.3'',
             Language = language settings,
             GroupID = '''',
             RequestReference = shipment_request_reference payload,
             UserToken = user_token settings\<rparr>
            \<lparr>OutputType = label_type_name PrintType_map_name payload,
             Synchronous = True,
             DocumentCriterium = \<lparr>DocumentCriteria = [
               \<lparr>PIN = \<lparr>Value = pin\<rparr>,
                DocumentTypes = \<lparr>DocumentType = [document_type PrintType_map_name payload]\<rparr>\<rparr>]\<rparr>\<rparr>
      in Serializable request)"

subsection \<open>JSON text of a plain mapping\<close>

text \<open>
  Modelled from the spec: \<^verbatim>\<open>jsonify\<close> and \<^verbatim>\<open>to_dict\<close> of \<^verbatim>\<open>purplship.core.utils\<close> and
  the JSON parser behind them are not among the sources. The spec has the serializer
  turn the request into a plain mapping and the mapping into a JSON string, with no
  custom formatting. A plain mapping is a JSON value; numbers are whole numbers here.
\<close>

datatype json =
    JNull
  | JBool bool
  | JNumber int
  | JString string
  | JArray "json list"
  | JObject "(string \<times> json) list"

text \<open>The double quote and the backslash, the two characters escaped in a string.\<close>

definition dquote :: char where
  "dquote = CHR 0x22"

definition backslash :: char where
  "backslash = CHR 0x5C"

text \<open>Decimal digits of a natural number, most significant first, and back.\<close>

definition digit_chars :: string where
  "digit_chars = ''0123456789''"

definition is_digit :: "char \<Rightarrow> bool" where
  "is_digit c = (c \<in> set digit_chars)"

definition digit_char :: "nat \<Rightarrow> char" where
  "digit_char d = digit_chars ! d"

definition digit_value :: "char \<Rightarrow> nat" where
  "digit_value c = length (takeWhile (\<lambda>d. d \<noteq> c) digit_chars)"

fun digits_of :: "nat \<Rightarrow> string" where
  "digits_of n = (if n < 10 then [digit_char n] else digits_of (n div 10) @ [digit_char (n mod 10)])"

declare digits_of.simps [simp del]

definition number_of_digits :: "string \<Rightarrow> nat" where
  "number_of_digits ds = foldl (\<lambda>total c. 10 * total + digit_value c) 0 ds"

definition dumps_number :: "int \<Rightarrow> string" where
  "dumps_number i = (if i < 0 then CHR ''-'' # digits_of (nat (- i)) else digits_of (nat i))"

definition escape :: "string \<Rightarrow> string" where
  "escape s = concat (map (\<lambda>c. if c = dquote \<or> c = backslash then [backslash, c] else [c]) s)"

definition dumps_string :: "string \<Rightarrow> string" where
  "dumps_string s = dquote # escape s @ [dquote]"

text \<open>
  Writing: items separated by a comma and a space, keys followed by a colon and a space,
  strings between double quotes.
\<close>

primrec json_dumps :: "json \<Rightarrow> string" where
  "json_dumps JNull = ''null''"
| "json_dumps (JBool b) = (if b then ''true'' else ''false'')"
| "json_dumps (JNumber i) = dumps_number i"
| "json_dumps (JString s) = dumps_string s"
| "json_dumps (JArray elements) = ''['' @ join_str '', '' (map json_dumps elements) @ '']''"
| "json_dumps (JObject members) =
     ''{'' @ join_str '', '' (map (\<lambda>(key, element). dumps_string key @ '': '' @ element)
                                (map (map_prod id json_dumps) members)) @ ''}''"

text \<open>
  Reading: whitespace is skipped before every value, key and separator. A reader that
  fails, as the parser raises on text that is not JSON, gives \<open>None\<close>. The recursion
  runs on fuel, one unit per nested value or list item; the text's length is enough.
\<close>

definition skip_ws :: "string \<Rightarrow> string" where
  "skip_ws s = dropWhile (\<lambda>c. c \<in> set [CHR '' '', CHR 0x0A, CHR 0x0D, CHR 0x09]) s"

definition expect :: "char \<Rightarrow> string \<Rightarrow> string option" where
  "expect ch s = (case skip_ws s of [] \<Rightarrow> None | c # cs \<Rightarrow> if c = ch then Some cs else None)"

definition literal :: "string \<Rightarrow> string \<Rightarrow> string option" where
  "literal word s = (if take (length word) s = word then Some (drop (length word) s) else None)"

fun string_body :: "string \<Rightarrow> (string \<times> string) option" where
  "string_body [] = None"
| "string_body (c # cs) =
     (if c = dquote then Some ([], cs)
      else if c = backslash then
        (case cs of
           [] \<Rightarrow> None
         | d # ds \<Rightarrow>
             if d = dquote \<or> d = backslash
             then (case string_body ds of None \<Rightarrow> None | Some (s, rest) \<Rightarrow> Some (d # s, rest))
             else None)
      else (case string_body cs of None \<Rightarrow> None | Some (s, rest) \<Rightarrow> Some (c # s, rest)))"

definition loads_number :: "string \<Rightarrow> (int \<times> string) option" where
  "loads_number s =
     (case s of
        [] \<Rightarrow> None
      | c # cs \<Rightarrow>
          if c = CHR ''-''
          then (if takeWhile is_digit cs = [] then None
                else Some (- int (number_of_digits (takeWhile is_digit cs)), dropWhile is_digit cs))
          else (if takeWhile is_digit s = [] then None
                else Some (int (number_of_digits (takeWhile is_digit s)), dropWhile is_digit s)))"

fun loads_value :: "nat \<Rightarrow> string \<Rightarrow> (json \<times> string) option"
  and loads_elements :: "nat \<Rightarrow> string \<Rightarrow> (json list \<times> string) option"
  and loads_members :: "nat \<Rightarrow> string \<Rightarrow> ((string \<times> json) list \<times> string) option" where
  "loads_value 0 s = None"
| "loads_value (Suc fuel) s =
     (case skip_ws s of
        [] \<Rightarrow> None
      | c # cs \<Rightarrow>
          if c = CHR ''n'' then map_option (Pair JNull) (literal ''ull'' cs)
          else if c = CHR ''t'' then map_option (Pair (JBool True)) (literal ''rue'' cs)
          else if c = CHR ''f'' then map_option (Pair (JBool False)) (literal ''alse'' cs)
          else if c = dquote then
            (case string_body cs of None \<Rightarrow> None | Some (chars, rest) \<Rightarrow> Some (JString chars, rest))
          else if c = CHR ''['' then
            (case expect CHR '']'' cs of
               Some rest \<Rightarrow> Some (JArray [], rest)
             | None \<Rightarrow>
                 (case loads_elements fuel cs of
                    None \<Rightarrow> None
                  | Some (elements, rest) \<Rightarrow> Some (JArray elements, rest)))
          else if c = CHR ''{'' then
            (case expect CHR ''}'' cs of
               Some rest \<Rightarrow> Some (JObject [], rest)
             | None \<Rightarrow>
                 (case loads_members fuel cs of
                    None \<Rightarrow> None
                  | Some (members, rest) \<Rightarrow> Some (JObject members, rest)))
          else (case loads_number (c # cs) of
                  None \<Rightarrow> None
                | Some (i, rest) \<Rightarrow> Some (JNumber i, rest)))"
| "loads_elements 0 s = None"
| "loads_elements (Suc fuel) s =
     (case loads_value fuel s of
        None \<Rightarrow> None
      | Some (element, rest) \<Rightarrow>
          (case expect CHR '','' rest of
             Some further \<Rightarrow>
               (case loads_elements fuel further of
                  None \<Rightarrow> None
                | Some (elements, rest') \<Rightarrow> Some (element # elements, rest'))
           | None \<Rightarrow>
               (case expect CHR '']'' rest of
                  None \<Rightarrow> None
                | Some rest' \<Rightarrow> Some ([element], rest'))))"
| "loads_members 0 s = None"
| "loads_members (Suc fuel) s =
     (case expect dquote s of
        None \<Rightarrow> None
      | Some after_quote \<Rightarrow>
          (case string_body after_quote of
             None \<Rightarrow> None
           | Some (key, after_key) \<Rightarrow>
               (case expect CHR '':'' after_key of
                  None \<Rightarrow> None
                | Some after_colon \<Rightarrow>
                    (case loads_value fuel after_colon of
                       None \<Rightarrow> None
                     | Some (element, rest) \<Rightarrow>
                         (case expect CHR '','' rest of
                            Some further \<Rightarrow>
                              (case loads_members fuel further of
                                 None \<Rightarrow> None
                               | Some (members, rest') \<Rightarrow> Some ((key, element) # members, rest'))
                          | None \<Rightarrow>
                              (case expect CHR ''}'' rest of
                                 None \<Rightarrow> None
                               | Some rest' \<Rightarrow> Some ([(key, element)], rest')))))))"

definition json_loads :: "string \<Rightarrow> json option" where
  "json_loads s =
     (case loads_value (Suc (length s)) s of
        None \<Rightarrow> None
      | Some (v, rest) \<Rightarrow> if skip_ws rest = [] then Some v else None)"

text \<open>The fuel that reading a written value takes, and what may follow a number.\<close>

primrec cost :: "json \<Rightarrow> nat" where
  "cost JNull = 1"
| "cost (JBool b) = 1"
| "cost (JNumber i) = 1"
| "cost (JString s) = 1"
| "cost (JArray elements) = Suc (sum_list (map cost elements) + length elements)"
| "cost (JObject members) =
     Suc (sum_list (map snd (map (map_prod id cost) members)) + length members)"

definition delimited :: "string \<Rightarrow> bool" where
  "delimited rest = (case rest of [] \<Rightarrow> True | c # cs \<Rightarrow> \<not> is_digit c)"

text \<open>The first character of a written value.\<close>

definition value_start :: "char \<Rightarrow> bool" where
  "value_start c =
     (c = CHR ''n'' \<or> c = CHR ''t'' \<or> c = CHR ''f'' \<or> c = dquote \<or> c = CHR ''['' \<or> c = CHR ''{''
      \<or> c = CHR ''-'' \<or> is_digit c)"

subsection \<open>Example inputs\<close>

definition example_address :: "string \<Rightarrow> Address" where
  "example_address cc =
     \<lparr>person_name = Some ''Jane'', company_name = None,
      address_line1 = Some ''1 Main St'', address_line2 = None, suburb = Some ''Sydney'',
      state_code = Some ''NSW'', postal_code = Some ''2000'', country_code = Some cc,
      phone_number = None, email = Some ''jane@example.com''\<rparr>"

definition example_payload :: "string \<Rightarrow> rat RateRequest" where
  "example_payload cc =
     \<lparr>shipper = example_address cc, recipient = example_address ''AU'',
      parcel = \<lparr>parcel_id = None, reference = Some ''REF'', description = None,
        parcel_length = Some 10, width = Some 20, height = Some 30, weight = Some 2.5,
        packaging_type = Some ''carton''\<rparr>\<rparr>"

definition example_settings :: Settings where
  "example_settings = \<lparr>settings_carrier = ''aups'', settings_carrier_name = ''Australia Post''\<rparr>"

text \<open>The shipment summary of the spec's example.\<close>

definition example_summary :: "rat ShipmentSummary" where
  "example_summary =
     \<lparr>fuel_surcharge = Some 10.5, security_surcharge = None, transit_cover = Some 2.0,
      freight_charge = None, total_cost_ex_gst = Some 100, total_gst = Some 10,
      total_cost = Some 110, discount = Some 0\<rparr>"

text \<open>
  Modelled from the spec: \<^verbatim>\<open>decimal\<close> of \<^verbatim>\<open>purplship.core.utils\<close> is not among the
  sources. The spec has amounts converted to exact decimal values, with no rounding;
  on rational numbers that conversion changes nothing.
\<close>

definition decimal_exact :: "rat option \<Rightarrow> rat option" where
  "decimal_exact v = v"

text \<open>An error parser for the examples: one message per error, a triple of the carrier,
  the error's code and its text.\<close>

definition example_parse_error_response ::
  "(string \<times> string) list \<Rightarrow> Settings \<Rightarrow> (string \<times> string \<times> string) list" where
  "example_parse_error_response errors settings =
     [(settings_carrier settings, fst error, snd error). error \<leftarrow> errors]"

text \<open>
  Modelled from the spec: the enum \<^verbatim>\<open>PrintType\<close> of
  \<^verbatim>\<open>purplship.providers.purolator.units\<close> is not among the sources. The spec names the
  print types \<^verbatim>\<open>PDF\<close> and \<^verbatim>\<open>ZPL\<close> and has enum names matched by exact string
  equality, sensitive to case and spelling: a label type is found under its own name
  or not at all.
\<close>

definition PrintType_exact :: "string \<Rightarrow> string option" where
  "PrintType_exact key = (if key = ''PDF'' \<or> key = ''ZPL'' then Some key else None)"

definition example_shipment :: "string \<Rightarrow> string option \<Rightarrow> ShipmentRequest" where
  "example_shipment destination label =
     \<lparr>shipment_request_shipper = example_address ''CA'',
      shipment_request_recipient = example_address destination,
      label_type = label,
      shipment_request_reference = Some ''order 7''\<rparr>"

definition example_purolator_settings :: PurolatorSettings where
  "example_purolator_settings = \<lparr>language = ''en'', user_token = ''token''\<rparr>"

text \<open>
  Modelled from the spec: the plain mapping of a rate request, for the examples. Every
  object becomes a mapping from its attribute names to the plain form of their values;
  \<^verbatim>\<open>None\<close> becomes \<open>JNull\<close>.
\<close>

definition plain_string :: "string option \<Rightarrow> json" where
  "plain_string v = (case v of None \<Rightarrow> JNull | Some s \<Rightarrow> JString s)"

definition plain_bool :: "bool option \<Rightarrow> json" where
  "plain_bool v = (case v of None \<Rightarrow> JNull | Some b \<Rightarrow> JBool b)"

definition plain_number :: "int option \<Rightarrow> json" where
  "plain_number v = (case v of None \<Rightarrow> JNull | Some i \<Rightarrow> JNumber i)"

definition plain_strings :: "string list option \<Rightarrow> json" where
  "plain_strings v = (case v of None \<Rightarrow> JNull | Some ss \<Rightarrow> JArray (map JString ss))"

definition From_to_dict :: "From \<Rightarrow> json" where
  "From_to_dict a = JObject [
     (''name'', plain_string (from_name a)),
     (''type'', plain_string (from_type a)),
     (''lines'', JArray (map plain_string (from_lines a))),
     (''suburb'', plain_string (from_suburb a)),
     (''state'', plain_string (from_state a)),
     (''postcode'', plain_string (from_postcode a)),
     (''country'', plain_string (from_country a)),
     (''phone'', plain_string (from_phone a)),
     (''email'', plain_string (from_email a))]"

definition To_to_dict :: "To \<Rightarrow> json" where
  "To_to_dict a = JObject [
     (''name'', plain_string (to_name a)),
     (''business_name'', plain_string (to_business_name a)),
     (''type'', plain_string (to_type a)),
     (''lines'', JArray (map plain_string (to_lines a))),
     (''suburb'', plain_string (to_suburb a)),
     (''state'', plain_string (to_state a)),
     (''postcode'', plain_string (to_postcode a)),
     (''country'', plain_string (to_country a)),
     (''phone'', plain_string (to_phone a)),
     (''email'', plain_string (to_email a)),
     (''delivery_instructions'', plain_string (to_delivery_instructions a))]"

definition Item_to_dict :: "int Item \<Rightarrow> json" where
  "Item_to_dict i = JObject [
     (''item_reference'', plain_string (item_reference i)),
     (''product_id'', plain_string (product_id i)),
     (''item_description'', plain_string (item_description i)),
     (''length'', plain_number (item_length i)),
     (''width'', plain_number (item_width i)),
     (''height'', plain_number (item_height i)),
     (''cubic_volume'', plain_number (cubic_volume i)),
     (''weight'', plain_number (item_weight i)),
     (''contains_dangerous_goods'', plain_bool (contains_dangerous_goods i)),
     (''transportable_by_air'', plain_bool (transportable_by_air i)),
     (''dangerous_goods_declaration'', plain_string (dangerous_goods_declaration i)),
     (''authority_to_leave'', plain_bool (authority_to_leave i)),
     (''reason_for_return'', plain_string (reason_for_return i)),
     (''allow_partial_delivery'', plain_bool (allow_partial_delivery i)),
     (''packaging_type'', plain_string (item_packaging_type i)),
     (''atl_number'', plain_string (atl_number i)),
     (''features'', plain_string (item_features i)),
     (''tracking_details'', plain_string (tracking_details i)),
     (''commercial_value'', plain_bool (commercial_value i)),
     (''export_declaration_number'', plain_string (export_declaration_number i)),
     (''import_reference_number'', plain_string (import_reference_number i)),
     (''classification_type'', plain_string (classification_type i)),
     (''description_of_other'', plain_string (description_of_other i)),
     (''international_parcel_sender_name'', plain_string (international_parcel_sender_name i)),
     (''non_delivery_action'', plain_string (non_delivery_action i)),
     (''certificate_number'', plain_string (certificate_number i)),
     (''licence_number'', plain_string (licence_number i)),
     (''invoice_number'', plain_string (invoice_number i)),
     (''comments'', plain_string (comments i)),
     (''tariff_concession'', plain_string (tariff_concession i)),
     (''free_trade_applicable'', plain_bool (free_trade_applicable i))]"

definition Shipment_to_dict :: "int Shipment \<Rightarrow> json" where
  "Shipment_to_dict s = JObject [
     (''shipment_reference'', plain_string (shipment_reference s)),
     (''sender_references'', plain_strings (sender_references s)),
     (''goods_descriptions'', plain_strings (goods_descriptions s)),
     (''despatch_date'', plain_string (despatch_date s)),
     (''consolidate'', plain_bool (consolidate s)),
     (''email_tracking_enabled'', plain_bool (email_tracking_enabled s)),
     (''from_'', From_to_dict (shipment_from s)),
     (''to'', To_to_dict (to s)),
     (''dangerous_goods'', plain_string (dangerous_goods s)),
     (''movement_type'', plain_string (movement_type s)),
     (''features'', plain_string (features s)),
     (''authorisation_number'', plain_string (authorisation_number s)),
     (''items'', JArray (map Item_to_dict (items s)))]"

definition request_to_dict :: "int ShippingPriceRequest \<Rightarrow> json" where
  "request_to_dict request = JObject [(''shipments'', JArray (map Shipment_to_dict (shipments request)))]"

definition example_whole_payload :: "int RateRequest" where
  "example_whole_payload =
     \<lparr>shipper = example_address ''AU'', recipient = example_address ''AU'',
      parcel = \<lparr>parcel_id = None, reference = Some ''REF'', description = None,
        parcel_length = Some 10, width = Some 20, height = Some 30, weight = Some 3,
        packaging_type = Some ''carton''\<rparr>\<rparr>"

section \<open>Properties of the rate request builder\<close>

lemma accepted_origin:
  assumes "country_code (shipper payload) = None \<or> country_code (shipper payload) = Some []
           \<or> country_code (shipper payload) = Some ''AU''"
  shows "\<not> (truthy (country_code (shipper payload))
             \<and> country_code (shipper payload) \<noteq> Some Country_AU_name)"
  using assms by (auto simp add: truthy_def Country_AU_name_def)

text \<open>
  C1: \<^verbatim>\<open>shipping_price_request\<close> raises \<^verbatim>\<open>OriginNotServicedError\<close> exactly when the
  shipper's country code is a non-empty string other than \<^verbatim>\<open>"AU"\<close>; the error carries
  that country code. With the country code \<^verbatim>\<open>"AU"\<close>, empty or absent, and only then, it
  returns a request.
\<close>

theorem origin_not_serviced:
  "((\<exists>e. shipping_price_request PackagingType payload = Inl e)
      = (\<exists>c. country_code (shipper payload) = Some c \<and> c \<noteq> [] \<and> c \<noteq> ''AU''))
   \<and> (\<forall>e. shipping_price_request PackagingType payload = Inl e
          \<longrightarrow> e = OriginNotServicedError (country_code (shipper payload)) ''Australia post'')
   \<and> ((\<exists>r. shipping_price_request PackagingType payload = Inr r)
      = (country_code (shipper payload) = None \<or> country_code (shipper payload) = Some []
         \<or> country_code (shipper payload) = Some ''AU''))"
  by (cases "country_code (shipper payload)")
     (simp_all add: shipping_price_request_def truthy_def Country_AU_name_def Let_def)

theorem origin_not_serviced_witness:
  "shipping_price_request [(''carton'', ''CTN'')] (example_payload ''CA'')
     = Inl (OriginNotServicedError (Some ''CA'') ''Australia post'')
   \<and> (\<exists>r. shipping_price_request [(''carton'', ''CTN'')] (example_payload ''AU'') = Inr r)"
  using origin_not_serviced [of "[(''carton'', ''CTN'')]" "example_payload ''CA''"]
        origin_not_serviced [of "[(''carton'', ''CTN'')]" "example_payload ''AU''"]
  by (auto simp add: example_payload_def example_address_def)

text \<open>
  C7: for every accepted payload the request holds exactly one shipment, and that
  shipment exactly one item. Every field of the shipment, of its two addresses and of the
  item that the payload has no counterpart for is set: to \<^verbatim>\<open>None\<close>, except
  \<^verbatim>\<open>authority_to_leave\<close> (\<^verbatim>\<open>False\<close>) and \<^verbatim>\<open>allow_partial_delivery\<close> (\<^verbatim>\<open>True\<close>).
\<close>

theorem single_shipment_single_item:
  assumes "country_code (shipper payload) = None \<or> country_code (shipper payload) = Some []
           \<or> country_code (shipper payload) = Some ''AU''"
  shows "\<exists>s i. shipping_price_request PackagingType payload
                  = Inr (Serializable \<lparr>shipments = [s]\<rparr>)
           \<and> items s = [i]
           \<and> sender_references s = None \<and> goods_descriptions s = None
           \<and> despatch_date s = None \<and> consolidate s = None
           \<and> from_type (shipment_from s) = None
           \<and> to_type (to s) = None \<and> to_delivery_instructions (to s) = None
           \<and> dangerous_goods s = None \<and> movement_type s = None \<and> features s = None
           \<and> authorisation_number s = None
           \<and> cubic_volume i = None \<and> contains_dangerous_goods i = None
           \<and> transportable_by_air i = None \<and> dangerous_goods_declaration i = None
           \<and> authority_to_leave i = Some False \<and> reason_for_return i = None
           \<and> allow_partial_delivery i = Some True \<and> atl_number i = None
           \<and> item_features i = None \<and> tracking_details i = None
           \<and> commercial_value i = None \<and> export_declaration_number i = None
           \<and> import_reference_number i = None \<and> classification_type i = None
           \<and> description_of_other i = None \<and> international_parcel_sender_name i = None
           \<and> non_delivery_action i = None \<and> certificate_number i = None
           \<and> licence_number i = None \<and> invoice_number i = None \<and> comments i = None
           \<and> tariff_concession i = None \<and> free_trade_applicable i = None"
  unfolding shipping_price_request_def Let_def
  using accepted_origin [OF assms] by simp

theorem single_shipment_single_item_witness:
  "\<exists>s i. shipping_price_request [(''carton'', ''CTN'')] (example_payload ''AU'')
            = Inr (Serializable \<lparr>shipments = [s]\<rparr>)
         \<and> items s = [i] \<and> features s = None \<and> cubic_volume i = None
         \<and> authority_to_leave i = Some False \<and> allow_partial_delivery i = Some True"
proof -
  have "country_code (shipper (example_payload ''AU'')) = Some ''AU''"
    by (simp add: example_payload_def example_address_def)
  from single_shipment_single_item [of "example_payload ''AU''" "[(''carton'', ''CTN'')]"] this
  show ?thesis by blast
qed

text \<open>
  C8: for every accepted payload the shipper's name, two address lines, suburb, state
  code, postal code, country, phone and email are the fields of \<^verbatim>\<open>from_\<close>, the
  recipient's are the fields of \<^verbatim>\<open>to\<close>, and \<^verbatim>\<open>email_tracking_enabled\<close> is true if and
  only if the shipper's email is not \<^verbatim>\<open>None\<close>.
\<close>

theorem address_mapping:
  assumes "country_code (shipper payload) = None \<or> country_code (shipper payload) = Some []
           \<or> country_code (shipper payload) = Some ''AU''"
  shows "\<exists>s. shipping_price_request PackagingType payload
                = Inr (Serializable \<lparr>shipments = [s]\<rparr>)
           \<and> from_name (shipment_from s) = person_name (shipper payload)
           \<and> from_lines (shipment_from s)
               = [address_line1 (shipper payload), address_line2 (shipper payload)]
           \<and> from_suburb (shipment_from s) = suburb (shipper payload)
           \<and> from_state (shipment_from s) = state_code (shipper payload)
           \<and> from_postcode (shipment_from s) = postal_code (shipper payload)
           \<and> from_country (shipment_from s) = country_code (shipper payload)
           \<and> from_phone (shipment_from s) = phone_number (shipper payload)
           \<and> from_email (shipment_from s) = email (shipper payload)
           \<and> to_name (to s) = person_name (recipient payload)
           \<and> to_lines (to s)
               = [address_line1 (recipient payload), address_line2 (recipient payload)]
           \<and> to_suburb (to s) = suburb (recipient payload)
           \<and> to_state (to s) = state_code (recipient payload)
           \<and> to_postcode (to s) = postal_code (recipient payload)
           \<and> to_country (to s) = country_code (recipient payload)
           \<and> to_phone (to s) = phone_number (recipient payload)
           \<and> to_email (to s) = email (recipient payload)
           \<and> (email_tracking_enabled s = Some True) = (email (shipper payload) \<noteq> None)
           \<and> (email_tracking_enabled s = Some False) = (email (shipper payload) = None)"
  unfolding shipping_price_request_def Let_def
  using accepted_origin [OF assms] by simp

theorem address_mapping_witness:
  "\<exists>s. shipping_price_request [] (example_payload ''AU'') = Inr (Serializable \<lparr>shipments = [s]\<rparr>)
       \<and> from_name (shipment_from s) = Some ''Jane''
       \<and> from_lines (shipment_from s) = [Some ''1 Main St'', None]
       \<and> from_country (shipment_from s) = Some ''AU''
       \<and> to_postcode (to s) = Some ''2000''
       \<and> email_tracking_enabled s = Some True"
proof -
  have "country_code (shipper (example_payload ''AU'')) = Some ''AU''"
    by (simp add: example_payload_def example_address_def)
  from address_mapping [of "example_payload ''AU''" "[]"] this
  obtain s where
    "shipping_price_request [] (example_payload ''AU'') = Inr (Serializable \<lparr>shipments = [s]\<rparr>)"
    and "from_name (shipment_from s) = person_name (shipper (example_payload ''AU''))"
    and "from_lines (shipment_from s)
           = [address_line1 (shipper (example_payload ''AU'')),
              address_line2 (shipper (example_payload ''AU''))]"
    and "from_country (shipment_from s) = country_code (shipper (example_payload ''AU''))"
    and "to_postcode (to s) = postal_code (recipient (example_payload ''AU''))"
    and "(email_tracking_enabled s = Some True) = (email (shipper (example_payload ''AU'')) \<noteq> None)"
    by blast
  then show ?thesis
    by (simp add: example_payload_def example_address_def)
qed

section \<open>Properties of the request serializer\<close>

subsection \<open>Reading back what was written\<close>

lemma join_str_Cons:
  "join_str separator (t # ts) = t @ (if ts = [] then [] else separator @ join_str separator ts)"
  by (cases ts) simp_all

lemma skip_ws_Cons:
  "skip_ws (c # cs) =
     (if c = CHR '' '' \<or> c = CHR 0x0A \<or> c = CHR 0x0D \<or> c = CHR 0x09 then skip_ws cs else c # cs)"
  by (auto simp add: skip_ws_def)

lemma skip_ws_Nil: "skip_ws [] = []"
  by (simp add: skip_ws_def)

lemma string_body_escape:
  "string_body (escape s @ dquote # rest) = Some (s, rest)"
  by (induction s) (simp_all add: escape_def dquote_def backslash_def)

lemma less_ten_cases:
  "(d::nat) < 10 \<Longrightarrow>
     d = 0 \<or> d = 1 \<or> d = 2 \<or> d = 3 \<or> d = 4 \<or> d = 5 \<or> d = 6 \<or> d = 7 \<or> d = 8 \<or> d = 9"
  by arith

lemma is_digit_digit_char: "d < 10 \<Longrightarrow> is_digit (digit_char d)"
  using less_ten_cases [of d]
  by (auto simp add: is_digit_def digit_char_def digit_chars_def)

lemma digit_value_digit_char: "d < 10 \<Longrightarrow> digit_value (digit_char d) = d"
  using less_ten_cases [of d]
  by (auto simp add: digit_value_def digit_char_def digit_chars_def)

lemma digits_of_digits: "\<forall>c \<in> set (digits_of n). is_digit c"
proof (induction n rule: digits_of.induct)
  case (1 n)
  show ?case
  proof (cases "n < 10")
    case True
    then show ?thesis by (simp add: digits_of.simps [of n] is_digit_digit_char)
  next
    case False
    with 1 show ?thesis
      by (simp add: digits_of.simps [of n] is_digit_digit_char)
  qed
qed

lemma digits_of_not_Nil: "digits_of n \<noteq> []"
  by (subst digits_of.simps) simp

lemma number_of_digits_snoc:
  "number_of_digits (ds @ [c]) = 10 * number_of_digits ds + digit_value c"
  by (simp add: number_of_digits_def)

lemma number_of_digits_of: "number_of_digits (digits_of n) = n"
proof (induction n rule: digits_of.induct)
  case (1 n)
  show ?case
  proof (cases "n < 10")
    case True
    then show ?thesis
      by (simp add: digits_of.simps [of n] number_of_digits_def digit_value_digit_char)
  next
    case False
    with 1 have "number_of_digits (digits_of (n div 10)) = n div 10" by simp
    with False show ?thesis
      by (simp add: digits_of.simps [of n] number_of_digits_snoc digit_value_digit_char)
  qed
qed

lemma takeWhile_digits:
  assumes "delimited rest"
  shows "takeWhile is_digit (digits_of n @ rest) = digits_of n"
    and "dropWhile is_digit (digits_of n @ rest) = rest"
proof -
  have all: "\<forall>c \<in> set (digits_of n). is_digit c" by (rule digits_of_digits)
  have stop: "takeWhile is_digit rest = []" "dropWhile is_digit rest = rest"
    using assms by (cases rest; simp add: delimited_def)+
  show "takeWhile is_digit (digits_of n @ rest) = digits_of n"
    using all stop by (simp add: takeWhile_append2)
  show "dropWhile is_digit (digits_of n @ rest) = rest"
    using all stop by (simp add: dropWhile_append2)
qed

lemma minus_not_digit: "\<not> is_digit CHR ''-''"
  by (simp add: is_digit_def digit_chars_def)

lemma loads_number_dumps:
  assumes "delimited rest"
  shows "loads_number (dumps_number i @ rest) = Some (i, rest)"
proof (cases "i < 0")
  case True
  then show ?thesis
    using takeWhile_digits [OF assms, of "nat (- i)"] digits_of_not_Nil [of "nat (- i)"]
    by (simp add: loads_number_def dumps_number_def number_of_digits_of)
next
  case False
  obtain c cs where digits: "digits_of (nat i) = c # cs"
    using digits_of_not_Nil [of "nat i"] by (cases "digits_of (nat i)") auto
  have "is_digit c"
    using digits_of_digits [of "nat i"] digits by simp
  then have "c \<noteq> CHR ''-''"
    using minus_not_digit by auto
  then show ?thesis
    using False digits takeWhile_digits [OF assms, of "nat i"] number_of_digits_of [of "nat i"]
    by (simp add: loads_number_def dumps_number_def)
qed

lemma delimited_simps:
  "delimited []" "delimited (CHR '']'' # r)" "delimited (CHR '','' # r)" "delimited (CHR ''}'' # r)"
  by (simp_all add: delimited_def is_digit_def digit_chars_def)

lemma expect_space: "expect ch (CHR '' '' # s) = expect ch s"
  by (simp add: expect_def skip_ws_Cons)

lemma loads_value_space: "loads_value fuel (CHR '' '' # s) = loads_value fuel s"
  by (cases fuel) (simp_all add: skip_ws_Cons)

lemma loads_elements_space: "loads_elements fuel (CHR '' '' # s) = loads_elements fuel s"
  by (cases fuel) (simp_all add: loads_value_space)

lemma loads_members_space: "loads_members fuel (CHR '' '' # s) = loads_members fuel s"
  by (cases fuel) (simp_all add: expect_space)

lemma digits_of_Cons: "\<exists>c cs. digits_of n = c # cs \<and> is_digit c"
proof -
  obtain c cs where "digits_of n = c # cs"
    using digits_of_not_Nil [of n] by (cases "digits_of n") auto
  moreover from this have "is_digit c"
    using digits_of_digits [of n] by simp
  ultimately show ?thesis by blast
qed

lemma json_dumps_start: "\<exists>c cs. json_dumps v = c # cs \<and> value_start c"
proof (cases v)
  case (JNumber i)
  then show ?thesis
    using digits_of_Cons [of "nat i"]
    by (auto simp add: dumps_number_def value_start_def)
qed (auto simp add: value_start_def dumps_string_def)

lemma value_start_expect:
  assumes "value_start c"
  shows "expect CHR '']'' (c # cs) = None" and "skip_ws (c # cs) = c # cs"
  using assms
  by (auto simp add: value_start_def expect_def skip_ws_Cons dquote_def is_digit_def digit_chars_def)

lemma expect_hit:
  "expect CHR '','' (CHR '','' # s) = Some s"
  "expect CHR '']'' (CHR '']'' # s) = Some s"
  "expect CHR ''}'' (CHR ''}'' # s) = Some s"
  "expect CHR '':'' (CHR '':'' # s) = Some s"
  "expect dquote (dquote # s) = Some s"
  "expect CHR '','' (CHR '']'' # s) = None"
  "expect CHR '','' (CHR ''}'' # s) = None"
  "expect CHR ''}'' (dquote # s) = None"
  by (simp_all add: expect_def skip_ws_Cons dquote_def)

lemma loads_elements_dumps:
  assumes "\<And>x fuel rest. x \<in> set xs \<Longrightarrow> cost x \<le> fuel \<Longrightarrow> delimited rest
             \<Longrightarrow> loads_value fuel (json_dumps x @ rest) = Some (x, rest)"
    and "xs \<noteq> []"
    and "sum_list (map cost xs) + length xs \<le> fuel"
  shows "loads_elements fuel (join_str '', '' (map json_dumps xs) @ CHR '']'' # rest)
           = Some (xs, rest)"
  using assms
proof (induction xs arbitrary: fuel)
  case Nil
  then show ?case by simp
next
  case (Cons x xs)
  from Cons.prems(3) obtain n where fuel: "fuel = Suc n"
    by (cases fuel) auto
  from Cons.prems(3) fuel have nx: "cost x \<le> n" and nxs: "sum_list (map cost xs) + length xs \<le> n"
    by simp_all
  show ?case
  proof (cases "xs = []")
    case True
    have "loads_value n (json_dumps x @ CHR '']'' # rest) = Some (x, CHR '']'' # rest)"
      using Cons.prems(1) [of x n "CHR '']'' # rest"] nx by (simp add: delimited_simps)
    then show ?thesis
      using True fuel by (simp add: expect_hit)
  next
    case False
    let ?tail = "join_str '', '' (map json_dumps xs) @ CHR '']'' # rest"
    have first: "loads_value n (json_dumps x @ CHR '','' # CHR '' '' # ?tail)
                   = Some (x, CHR '','' # CHR '' '' # ?tail)"
      using Cons.prems(1) [of x n "CHR '','' # CHR '' '' # ?tail"] nx
      by (simp add: delimited_simps)
    have others: "loads_elements n ?tail = Some (xs, rest)"
      using Cons.IH [of n] Cons.prems(1) False nxs by simp
    show ?thesis
      using False fuel first others
      by (simp add: join_str_Cons expect_hit loads_elements_space)
  qed
qed

lemma member_texts:
  "map (\<lambda>(key, element). dumps_string key @ '': '' @ element) (map (map_prod id json_dumps) members)
     = map (\<lambda>member. dumps_string (fst member) @ '': '' @ json_dumps (snd member)) members"
  by (induction members) auto

lemma loads_members_dumps:
  assumes "\<And>x fuel rest. x \<in> set ms \<Longrightarrow> cost (snd x) \<le> fuel \<Longrightarrow> delimited rest
             \<Longrightarrow> loads_value fuel (json_dumps (snd x) @ rest) = Some (snd x, rest)"
    and "ms \<noteq> []"
    and "sum_list (map (\<lambda>m. cost (snd m)) ms) + length ms \<le> fuel"
  shows "loads_members fuel
           (join_str '', '' (map (\<lambda>member. dumps_string (fst member) @ '': '' @ json_dumps (snd member)) ms)
              @ CHR ''}'' # rest)
           = Some (ms, rest)"
  using assms
proof (induction ms arbitrary: fuel)
  case Nil
  then show ?case by simp
next
  case (Cons m ms)
  obtain k v where m: "m = (k, v)" by (cases m)
  from Cons.prems(3) obtain n where fuel: "fuel = Suc n"
    by (cases fuel) auto
  from Cons.prems(3) fuel m have nv: "cost v \<le> n"
    and nms: "sum_list (map (\<lambda>m. cost (snd m)) ms) + length ms \<le> n"
    by simp_all
  show ?case
  proof (cases "ms = []")
    case True
    have "loads_value n (json_dumps v @ CHR ''}'' # rest) = Some (v, CHR ''}'' # rest)"
      using Cons.prems(1) [of m n "CHR ''}'' # rest"] nv m by (simp add: delimited_simps)
    then show ?thesis
      using True fuel m
      by (simp add: expect_hit dumps_string_def string_body_escape expect_space loads_value_space)
  next
    case False
    let ?tail = "join_str '', ''
        (map (\<lambda>member. dumps_string (fst member) @ '': '' @ json_dumps (snd member)) ms)
        @ CHR ''}'' # rest"
    have first: "loads_value n (json_dumps v @ CHR '','' # CHR '' '' # ?tail)
                   = Some (v, CHR '','' # CHR '' '' # ?tail)"
      using Cons.prems(1) [of m n "CHR '','' # CHR '' '' # ?tail"] nv m
      by (simp add: delimited_simps)
    have others: "loads_members n ?tail = Some (ms, rest)"
      using Cons.IH [of n] Cons.prems(1) False nms by simp
    show ?thesis
      using False fuel m first others
      by (simp add: join_str_Cons expect_hit dumps_string_def string_body_escape expect_space
            loads_value_space loads_members_space)
  qed
qed

lemma cost_members:
  "sum_list (map snd (map (map_prod id cost) members))
     = sum_list (map (\<lambda>m. cost (snd m)) members)"
  by (induction members) auto

lemma json_dumps_JObject:
  "json_dumps (JObject members) =
     ''{'' @ join_str '', ''
        (map (\<lambda>member. dumps_string (fst member) @ '': '' @ json_dumps (snd member)) members)
     @ ''}''"
  by (simp only: json_dumps.simps member_texts)

lemma cost_JObject:
  "cost (JObject members) = Suc (sum_list (map (\<lambda>m. cost (snd m)) members) + length members)"
  by (simp only: cost.simps cost_members)

lemma loads_value_dumps:
  "cost v \<le> fuel \<Longrightarrow> delimited rest
     \<Longrightarrow> loads_value fuel (json_dumps v @ rest) = Some (v, rest)"
proof (induction v arbitrary: fuel rest)
  case JNull
  then obtain n where "fuel = Suc n" by (cases fuel) auto
  then show ?case by (simp add: skip_ws_Cons literal_def)
next
  case (JBool b)
  then obtain n where "fuel = Suc n" by (cases fuel) auto
  then show ?case by (simp add: skip_ws_Cons literal_def)
next
  case (JNumber i)
  then obtain n where fuel: "fuel = Suc n" by (cases fuel) auto
  obtain c cs where shape: "json_dumps (JNumber i) = c # cs" and start: "value_start c"
    using json_dumps_start [of "JNumber i"] by blast
  have number: "c = CHR ''-'' \<or> is_digit c"
    using shape digits_of_Cons [of "nat i"] digits_of_Cons [of "nat (- i)"]
    by (auto simp add: dumps_number_def split: if_splits)
  then have other: "c \<noteq> CHR ''n''" "c \<noteq> CHR ''t''" "c \<noteq> CHR ''f''" "c \<noteq> dquote"
    "c \<noteq> CHR ''[''" "c \<noteq> CHR ''{''"
    by (auto simp add: is_digit_def digit_chars_def dquote_def)
  have "loads_number (c # cs @ rest) = Some (i, rest)"
    using loads_number_dumps [OF JNumber.prems(2), of i] shape by simp
  then show ?case
    using fuel shape other value_start_expect(2) [OF start, of "cs @ rest"]
    by simp
next
  case (JString s)
  then obtain n where "fuel = Suc n" by (cases fuel) auto
  then show ?case
    by (simp add: skip_ws_Cons dumps_string_def string_body_escape dquote_def [symmetric])
       (simp add: dquote_def)
next
  case (JArray xs)
  from JArray.prems obtain n where fuel: "fuel = Suc n"
    and n: "sum_list (map cost xs) + length xs \<le> n"
    by (cases fuel) auto
  show ?case
  proof (cases "xs = []")
    case True
    then show ?thesis
      using fuel by (simp add: skip_ws_Cons expect_hit dquote_def)
  next
    case False
    then obtain x xs' where xs: "xs = x # xs'" by (cases xs) auto
    obtain c cs where first: "json_dumps x = c # cs" and start: "value_start c"
      using json_dumps_start [of x] by blast
    let ?inner = "join_str '', '' (map json_dumps xs) @ CHR '']'' # rest"
    have "\<exists>cs'. ?inner = c # cs'"
      using xs first by (simp add: join_str_Cons)
    then obtain cs' where inner: "?inner = c # cs'" by blast
    have miss: "expect CHR '']'' ?inner = None"
      using value_start_expect(1) [OF start, of cs'] inner by simp
    have "loads_elements n ?inner = Some (xs, rest)"
      using loads_elements_dumps [of xs n rest] JArray.IH False n JArray.prems(2)
      by simp
    then show ?thesis
      using fuel miss by (simp add: skip_ws_Cons dquote_def)
  qed
next
  case (JObject ms)
  from JObject.prems obtain n where fuel: "fuel = Suc n"
    and n: "sum_list (map (\<lambda>m. cost (snd m)) ms) + length ms \<le> n"
    by (cases fuel) (auto simp add: cost_JObject simp del: cost.simps(6))
  have IH: "loads_value fuel (json_dumps (snd x) @ rest) = Some (snd x, rest)"
    if "x \<in> set ms" "cost (snd x) \<le> fuel" "delimited rest" for x fuel rest
    using JObject.IH [of x "snd x" fuel rest] that by (cases x) simp
  show ?case
  proof (cases "ms = []")
    case True
    then show ?thesis
      using fuel by (simp add: skip_ws_Cons expect_hit dquote_def)
  next
    case False
    then obtain m ms' where ms: "ms = m # ms'" by (cases ms) auto
    let ?inner = "join_str '', ''
        (map (\<lambda>member. dumps_string (fst member) @ '': '' @ json_dumps (snd member)) ms)
        @ CHR ''}'' # rest"
    have "\<exists>cs'. ?inner = dquote # cs'"
      using ms by (simp add: join_str_Cons dumps_string_def)
    then obtain cs' where inner: "?inner = dquote # cs'" by blast
    have miss: "expect CHR ''}'' ?inner = None"
      using inner by (simp add: expect_hit)
    have "loads_members n ?inner = Some (ms, rest)"
      using loads_members_dumps [of ms n rest] IH False n by simp
    then show ?thesis
      using fuel miss
      by (simp add: skip_ws_Cons json_dumps_JObject dquote_def del: json_dumps.simps(6))
  qed
qed

lemma length_join_str:
  "texts \<noteq> [] \<Longrightarrow>
     length (join_str '', '' texts) + 2 = sum_list (map length texts) + 2 * length texts"
proof (induction texts)
  case Nil
  then show ?case by simp
next
  case (Cons t ts)
  then show ?case by (cases "ts = []") (simp_all add: join_str_Cons)
qed

lemma cost_le_length: "cost v \<le> length (json_dumps v)"
proof (induction v)
  case (JNumber i)
  obtain c cs where "json_dumps (JNumber i) = c # cs"
    using json_dumps_start [of "JNumber i"] by blast
  then show ?case by simp
next
  case (JArray xs)
  have sum: "sum_list (map cost xs) \<le> sum_list (map length (map json_dumps xs))"
    using JArray.IH by (induction xs) (simp_all add: add_mono)
  show ?case
  proof (cases "xs = []")
    case True
    then show ?thesis by simp
  next
    case False
    then have "length (join_str '', '' (map json_dumps xs)) + 2
        = sum_list (map length (map json_dumps xs)) + 2 * length xs"
      using length_join_str [of "map json_dumps xs"] by simp
    moreover from False have "1 \<le> length xs" by (cases xs) simp_all
    ultimately show ?thesis using sum by simp
  qed
next
  case (JObject ms)
  let ?texts = "map (\<lambda>member. dumps_string (fst member) @ '': '' @ json_dumps (snd member)) ms"
  have each: "cost (snd m) \<le> length (json_dumps (snd m))" if "m \<in> set ms" for m
    using JObject.IH [of m "snd m"] that by (cases m) simp
  have sum: "sum_list (map (\<lambda>m. cost (snd m)) ms) \<le> sum_list (map length ?texts)"
    using each
  proof (induction ms)
    case Nil
    then show ?case by simp
  next
    case (Cons m ms)
    have "cost (snd m) \<le> length (json_dumps (snd m))"
      using Cons.prems [of m] by simp
    moreover have "sum_list (map (\<lambda>m. cost (snd m)) ms)
        \<le> sum_list (map length
             (map (\<lambda>member. dumps_string (fst member) @ '': '' @ json_dumps (snd member)) ms))"
      using Cons.IH Cons.prems by simp
    ultimately show ?case by simp
  qed
  show ?case
  proof (cases "ms = []")
    case True
    then show ?thesis by simp
  next
    case False
    then have "length (join_str '', '' ?texts) + 2
        = sum_list (map length ?texts) + 2 * length ms"
      using length_join_str [of ?texts] by simp
    moreover from False have "1 \<le> length ms" by (cases ms) simp_all
    ultimately show ?thesis
      using sum
      by (simp add: json_dumps_JObject cost_JObject del: json_dumps.simps(6) cost.simps(6))
  qed
qed (simp_all add: dumps_string_def)

lemma json_round_trip: "json_loads (json_dumps v) = Some v"
proof -
  have "loads_value (Suc (length (json_dumps v))) (json_dumps v @ []) = Some (v, [])"
    using cost_le_length [of v] by (intro loads_value_dumps) (simp_all add: delimited_simps)
  then show ?thesis
    by (simp add: json_loads_def skip_ws_Nil)
qed

subsection \<open>The round trip of the serialized request\<close>

text \<open>
  C6: for every request built by \<^verbatim>\<open>shipping_price_request\<close>, parsing the string the
  request serializer gives yields the plain mapping of the request, \<^verbatim>\<open>to_dict(request)\<close>:
  the serializer is \<^verbatim>\<open>jsonify\<close> after \<^verbatim>\<open>to_dict\<close> and adds nothing of its own, so the
  round trip is the one of the JSON helpers on plain mappings.
\<close>

theorem request_serializer_round_trip:
  assumes "\<forall>mapping. loads (jsonify mapping) = Some mapping"
    and "shipping_price_request PackagingType payload = Inr (Serializable request)"
  shows "loads (request_serializer jsonify to_dict request) = Some (to_dict request)"
  using assms(1) by (simp add: request_serializer_def)

theorem request_serializer_round_trip_witness:
  "\<exists>request. shipping_price_request [(''carton'', ''CTN'')] example_whole_payload
                 = Inr (Serializable request)
     \<and> json_loads (request_serializer json_dumps request_to_dict request)
         = Some (request_to_dict request)"
proof -
  have library: "\<forall>mapping. json_loads (json_dumps mapping) = Some mapping"
    by (simp add: json_round_trip)
  have "\<exists>request. shipping_price_request [(''carton'', ''CTN'')] example_whole_payload
                 = Inr (Serializable request)"
    by (simp add: shipping_price_request_def example_whole_payload_def example_address_def
          truthy_def Country_AU_name_def Let_def)
  then obtain request where built:
    "shipping_price_request [(''carton'', ''CTN'')] example_whole_payload
       = Inr (Serializable request)"
    by blast
  from request_serializer_round_trip [OF library built, of request_to_dict] built
  show ?thesis by blast
qed

section \<open>Properties of the rate response parser\<close>

text \<open>
  C2: \<^verbatim>\<open>_extract_quote\<close> reads the shipment's summary, an empty one when it is absent.
  Its extra charges are, in this order, the entries Fuel, Security, Transit Cover and
  Freight Charge whose value in the summary is not \<^verbatim>\<open>None\<close>, each the decimal
  conversion of that value, in AUD; the base charge is the decimal conversion of
  \<^verbatim>\<open>total_cost_ex_gst\<close>, duties and taxes of \<^verbatim>\<open>total_gst\<close>, the total charge of
  \<^verbatim>\<open>total_cost\<close>, the discount of \<^verbatim>\<open>discount\<close>, and the currency is AUD.
\<close>

theorem extract_quote_charges:
  assumes "summary = (case shipment_summary rate of
                        None \<Rightarrow> ShipmentSummary_empty | Some s \<Rightarrow> s)"
  shows "extra_charges (extract_quote decimal rate settings) =
           (if fuel_surcharge summary = None then []
            else [\<lparr>charge_name = ''Fuel'',
                   charge_amount = decimal (fuel_surcharge summary),
                   charge_currency = ''AUD''\<rparr>])
         @ (if security_surcharge summary = None then []
            else [\<lparr>charge_name = ''Security'',
                   charge_amount = decimal (security_surcharge summary),
                   charge_currency = ''AUD''\<rparr>])
         @ (if transit_cover summary = None then []
            else [\<lparr>charge_name = ''Transit Cover'',
                   charge_amount = decimal (transit_cover summary),
                   charge_currency = ''AUD''\<rparr>])
         @ (if freight_charge summary = None then []
            else [\<lparr>charge_name = ''Freight Charge'',
                   charge_amount = decimal (freight_charge summary),
                   charge_currency = ''AUD''\<rparr>])
     \<and> base_charge (extract_quote decimal rate settings) = decimal (total_cost_ex_gst summary)
     \<and> duties_and_taxes (extract_quote decimal rate settings) = decimal (total_gst summary)
     \<and> total_charge (extract_quote decimal rate settings) = decimal (total_cost summary)
     \<and> rate_discount (extract_quote decimal rate settings) = decimal (discount summary)
     \<and> currency (extract_quote decimal rate settings) = ''AUD''"
  unfolding assms extract_quote_def Let_def Currency_AUD_name_def
  by simp

text \<open>The spec's example: two extra charges, Fuel 10.5 and Transit Cover 2.0.\<close>

theorem extract_quote_charges_witness:
  "extra_charges (extract_quote decimal_exact
       \<lparr>shipment_summary = Some example_summary\<rparr> example_settings)
     = [\<lparr>charge_name = ''Fuel'', charge_amount = Some 10.5, charge_currency = ''AUD''\<rparr>,
        \<lparr>charge_name = ''Transit Cover'', charge_amount = Some 2.0, charge_currency = ''AUD''\<rparr>]
   \<and> base_charge (extract_quote decimal_exact
       \<lparr>shipment_summary = Some example_summary\<rparr> example_settings) = Some 100
   \<and> duties_and_taxes (extract_quote decimal_exact
       \<lparr>shipment_summary = Some example_summary\<rparr> example_settings) = Some 10
   \<and> total_charge (extract_quote decimal_exact
       \<lparr>shipment_summary = Some example_summary\<rparr> example_settings) = Some 110
   \<and> currency (extract_quote decimal_exact
       \<lparr>shipment_summary = Some example_summary\<rparr> example_settings) = ''AUD''"
  using extract_quote_charges [of example_summary "\<lparr>shipment_summary = Some example_summary\<rparr>"
          decimal_exact example_settings]
  by (simp add: example_summary_def decimal_exact_def)

text \<open>
  C5: the first component of the result of \<^verbatim>\<open>parse_shipping_price_response\<close> has one
  quote per shipment of the response, in order, each the quote extracted from that
  shipment. The second component is the error parser's result on the response's errors,
  or on the empty list when the response has none. Neither component depends on the
  other's input. When the error parser gives no message for no error, a response with
  no shipment and no error gives two empty lists.
\<close>

theorem parse_response_quotes_and_errors:
  "length (fst (parse_shipping_price_response decimal parse_errors response settings))
     = length (response_shipments response)
   \<and> (\<forall>k < length (response_shipments response).
        fst (parse_shipping_price_response decimal parse_errors response settings) ! k
          = extract_quote decimal (response_shipments response ! k) settings)
   \<and> snd (parse_shipping_price_response decimal parse_errors response settings)
       = parse_errors
           (case response_errors response of None \<Rightarrow> [] | Some errors \<Rightarrow> errors) settings
   \<and> (\<forall>other. snd (parse_shipping_price_response decimal parse_errors
                      (response\<lparr>response_shipments := other\<rparr>) settings)
               = snd (parse_shipping_price_response decimal parse_errors response settings))
   \<and> (\<forall>other. fst (parse_shipping_price_response decimal parse_errors
                      (response\<lparr>response_errors := other\<rparr>) settings)
               = fst (parse_shipping_price_response decimal parse_errors response settings))
   \<and> (parse_errors [] settings = [] \<longrightarrow>
        parse_shipping_price_response decimal parse_errors
          \<lparr>response_shipments = [], response_errors = Some []\<rparr> settings = ([], []))"
  by (simp add: parse_shipping_price_response_def ShippingPriceResponse_def)

text \<open>Nothing in, nothing out; and two quotes together with one error message.\<close>

theorem parse_response_quotes_and_errors_witness:
  "parse_shipping_price_response decimal_exact example_parse_error_response
      \<lparr>response_shipments = [], response_errors = Some []\<rparr> example_settings = ([], [])
   \<and> length (fst (parse_shipping_price_response decimal_exact example_parse_error_response
        \<lparr>response_shipments =
           [\<lparr>shipment_summary = Some example_summary\<rparr>, \<lparr>shipment_summary = None\<rparr>],
         response_errors = Some [(''404'', ''not found'')]\<rparr> example_settings)) = 2
   \<and> snd (parse_shipping_price_response decimal_exact example_parse_error_response
        \<lparr>response_shipments =
           [\<lparr>shipment_summary = Some example_summary\<rparr>, \<lparr>shipment_summary = None\<rparr>],
         response_errors = Some [(''404'', ''not found'')]\<rparr> example_settings)
       = [(''aups'', ''404'', ''not found'')]"
  using parse_response_quotes_and_errors [of decimal_exact example_parse_error_response
          "\<lparr>response_shipments = [], response_errors = Some []\<rparr>" example_settings]
        parse_response_quotes_and_errors [of decimal_exact example_parse_error_response
          "\<lparr>response_shipments =
              [\<lparr>shipment_summary = Some example_summary\<rparr>, \<lparr>shipment_summary = None\<rparr>],
            response_errors = Some [(''404'', ''not found'')]\<rparr>" example_settings]
  by (simp add: example_parse_error_response_def example_settings_def)

section \<open>Properties of the shipping documents request builder\<close>

lemma document_type_parts:
  "document_type m payload =
     (if is_international payload then ''International'' else ''Domestic'')
     @ ''BillOfLading''
     @ (if label_type_name m payload = Some ''ZPL'' then ''Thermal'' else '''')"
  by (simp add: document_type_def concat_str_def)

lemma not_suffix_Thermal_BillOfLading: "\<not> suffix ''Thermal'' (xs @ ''BillOfLading'')"
proof
  assume "suffix ''Thermal'' (xs @ ''BillOfLading'')"
  then obtain zs where "xs @ ''BillOfLading'' = zs @ ''Thermal''"
    by (auto simp add: suffix_def)
  then have "last (xs @ ''BillOfLading'') = last (zs @ ''Thermal'')"
    by simp
  then show False by simp
qed

text \<open>
  C3: the document type is the concatenation, with nothing in between, of
  \<^verbatim>\<open>Domestic\<close> or \<^verbatim>\<open>International\<close>, of \<^verbatim>\<open>BillOfLading\<close>, and of \<^verbatim>\<open>Thermal\<close> or
  nothing. It starts with \<^verbatim>\<open>Domestic\<close> exactly when the shipper's and the recipient's
  country codes are equal, and with \<^verbatim>\<open>International\<close> exactly when they differ.
\<close>

theorem document_type_prefix:
  "document_type m payload =
     (if country_code (shipment_request_shipper payload)
           = country_code (shipment_request_recipient payload)
      then ''Domestic'' else ''International'')
     @ ''BillOfLading''
     @ (if m (label_type_or (label_type payload) ''PDF'') = Some ''ZPL'' then ''Thermal'' else '''')
   \<and> prefix ''Domestic'' (document_type m payload)
       = (country_code (shipment_request_shipper payload)
            = country_code (shipment_request_recipient payload))
   \<and> prefix ''International'' (document_type m payload)
       = (country_code (shipment_request_shipper payload)
            \<noteq> country_code (shipment_request_recipient payload))"
  by (simp add: document_type_parts is_international_def label_type_name_def prefix_def)

theorem document_type_prefix_witness:
  "document_type PrintType_exact (example_shipment ''CA'' (Some ''ZPL''))
     = ''DomesticBillOfLadingThermal''
   \<and> document_type PrintType_exact (example_shipment ''US'' (Some ''PDF''))
     = ''InternationalBillOfLading''"
  using document_type_prefix [of PrintType_exact "example_shipment ''CA'' (Some ''ZPL'')"]
        document_type_prefix [of PrintType_exact "example_shipment ''US'' (Some ''PDF'')"]
  by (simp add: example_shipment_def example_address_def PrintType_exact_def label_type_or_def)

text \<open>
  C4: the document type ends with \<^verbatim>\<open>Thermal\<close> exactly when the print type mapping
  sends the requested label type (\<^verbatim>\<open>PDF\<close> when none is requested) to the print type
  named \<^verbatim>\<open>ZPL\<close>. The label type \<^verbatim>\<open>ZPL\<close>, found under its own name, gets the suffix;
  a label type the mapping does not send to \<^verbatim>\<open>ZPL\<close>, as \<^verbatim>\<open>zpl\<close> under matching by exact
  string equality, does not.
\<close>

theorem document_type_suffix:
  "suffix ''Thermal'' (document_type m payload)
     = (m (label_type_or (label_type payload) ''PDF'') = Some ''ZPL'')
   \<and> (\<forall>key. label_type payload = Some key \<and> key \<noteq> []
        \<longrightarrow> suffix ''Thermal'' (document_type m payload) = (m key = Some ''ZPL''))
   \<and> (label_type payload = Some ''ZPL'' \<and> m ''ZPL'' = Some ''ZPL''
        \<longrightarrow> suffix ''Thermal'' (document_type m payload))
   \<and> (label_type payload = Some ''zpl'' \<and> m ''zpl'' \<noteq> Some ''ZPL''
        \<longrightarrow> \<not> suffix ''Thermal'' (document_type m payload))"
proof -
  have ends: "suffix ''Thermal'' (document_type m payload)
     = (m (label_type_or (label_type payload) ''PDF'') = Some ''ZPL'')"
  proof (cases "m (label_type_or (label_type payload) ''PDF'') = Some ''ZPL''")
    case True
    then have "document_type m payload
        = ((if is_international payload then ''International'' else ''Domestic'')
            @ ''BillOfLading'') @ ''Thermal''"
      by (simp add: document_type_parts label_type_name_def)
    then show ?thesis using True by (simp only: suffix_def) blast
  next
    case False
    then have "document_type m payload
        = (if is_international payload then ''International'' else ''Domestic'')
           @ ''BillOfLading''"
      by (simp add: document_type_parts label_type_name_def)
    then show ?thesis using False not_suffix_Thermal_BillOfLading by simp
  qed
  have requested: "label_type_or (label_type payload) ''PDF'' = key"
    if "label_type payload = Some key" and "key \<noteq> []" for key
    using that by (simp add: label_type_or_def)
  have "suffix ''Thermal'' (document_type m payload) = (m key = Some ''ZPL'')"
    if "label_type payload = Some key" and "key \<noteq> []" for key
    using ends requested [OF that] by simp
  then show ?thesis
    using ends by auto
qed

theorem document_type_suffix_witness:
  "suffix ''Thermal'' (document_type PrintType_exact (example_shipment ''US'' (Some ''ZPL'')))
   \<and> \<not> suffix ''Thermal'' (document_type PrintType_exact (example_shipment ''US'' (Some ''PDF'')))
   \<and> \<not> suffix ''Thermal'' (document_type PrintType_exact (example_shipment ''US'' (Some ''PNG'')))"
  using document_type_suffix [of PrintType_exact "example_shipment ''US'' (Some ''ZPL'')"]
        document_type_suffix [of PrintType_exact "example_shipment ''US'' (Some ''PDF'')"]
        document_type_suffix [of PrintType_exact "example_shipment ''US'' (Some ''PNG'')"]
  by (simp add: example_shipment_def PrintType_exact_def label_type_or_def)

text \<open>A label type that is \<^verbatim>\<open>ZPL\<close> but for the case of its letters gets no suffix.\<close>

theorem document_type_suffix_counterexample:
  "\<not> suffix ''Thermal'' (document_type PrintType_exact (example_shipment ''US'' (Some ''zpl'')))"
proof -
  have "document_type PrintType_exact (example_shipment ''US'' (Some ''zpl''))
          = ''InternationalBillOfLading''"
    by (simp add: document_type_parts label_type_name_def label_type_or_def is_international_def
          example_shipment_def example_address_def PrintType_exact_def)
  then show ?thesis
    using not_suffix_Thermal_BillOfLading [of "''International''"] by simp
qed

text \<open>
  C9: the envelope built by \<^verbatim>\<open>get_shipping_documents_request\<close> has one header object
  with Version 1.3, the settings' language, an empty GroupID, the payload's reference
  and the settings' user token, and one body object whose OutputType is the name of the
  mapped print type, with Synchronous true and exactly one document criterion: its PIN
  is the given tracking identifier and its document types are the one computed document
  type.
\<close>

theorem documents_envelope:
  "\<exists>context request criteria.
     wrapped (get_shipping_documents_request m pin payload settings)
       = \<lparr>Header = \<lparr>header_anytypeobjs = [context]\<rparr>,
          Body = \<lparr>body_anytypeobjs = [request]\<rparr>\<rparr>
     \<and> Version context = ''1.3''
     \<and> Language context = language settings
     \<and> GroupID context = ''''
     \<and> RequestReference context = shipment_request_reference payload
     \<and> UserToken context = user_token settings
     \<and> OutputType request = m (label_type_or (label_type payload) ''PDF'')
     \<and> Synchronous request
     \<and> DocumentCriteria (DocumentCriterium request) = [criteria]
     \<and> Value (PIN criteria) = pin
     \<and> DocumentType (DocumentTypes criteria) = [document_type m payload]"
  by (simp add: get_shipping_documents_request_def create_envelope_def label_type_name_def)

theorem documents_envelope_witness:
  "\<exists>context request criteria.
     wrapped (get_shipping_documents_request PrintType_exact ''329014521622''
        (example_shipment ''CA'' (Some ''ZPL'')) example_purolator_settings)
       = \<lparr>Header = \<lparr>header_anytypeobjs = [context]\<rparr>,
          Body = \<lparr>body_anytypeobjs = [request]\<rparr>\<rparr>
     \<and> Version context = ''1.3''
     \<and> Language context = ''en''
     \<and> RequestReference context = Some ''order 7''
     \<and> UserToken context = ''token''
     \<and> OutputType request = Some ''ZPL''
     \<and> DocumentCriteria (DocumentCriterium request) = [criteria]
     \<and> Value (PIN criteria) = ''329014521622''
     \<and> DocumentType (DocumentTypes criteria) = [''DomesticBillOfLadingThermal'']"
  using documents_envelope [of PrintType_exact "''329014521622''"
          "example_shipment ''CA'' (Some ''ZPL'')" example_purolator_settings]
  by (simp add: example_shipment_def example_purolator_settings_def PrintType_exact_def
        label_type_or_def document_type_parts is_international_def label_type_name_def)
     blast

text \<open>
  C10: with a label type that is \<^verbatim>\<open>None\<close> or empty, \<^verbatim>\<open>get_shipping_documents_request\<close>
  builds the request it builds for the label type \<^verbatim>\<open>PDF\<close>: the OutputType is the name of
  the print type that \<^verbatim>\<open>PDF\<close> maps to and, that print type not being the one named
  \<^verbatim>\<open>ZPL\<close>, the document type does not end with \<^verbatim>\<open>Thermal\<close>.
\<close>

theorem missing_label_type_is_pdf:
  assumes "label_type payload = None \<or> label_type payload = Some []"
  shows "get_shipping_documents_request m pin payload settings
           = get_shipping_documents_request m pin (payload\<lparr>label_type := Some ''PDF''\<rparr>) settings
         \<and> (\<exists>request.
              Body (wrapped (get_shipping_documents_request m pin payload settings))
                = \<lparr>body_anytypeobjs = [request]\<rparr>
              \<and> OutputType request = m ''PDF'')
         \<and> (m ''PDF'' \<noteq> Some ''ZPL'' \<longrightarrow> \<not> suffix ''Thermal'' (document_type m payload))"
proof -
  from assms have l: "label_type_or (label_type payload) ''PDF'' = ''PDF''"
    by (auto simp add: label_type_or_def)
  have "\<not> suffix ''Thermal'' (document_type m payload)" if "m ''PDF'' \<noteq> Some ''ZPL''"
    using that l not_suffix_Thermal_BillOfLading
    by (simp add: document_type_parts label_type_name_def)
  then show ?thesis
    using l
    by (simp add: get_shipping_documents_request_def create_envelope_def label_type_name_def
          document_type_def is_international_def label_type_or_def)
qed

theorem missing_label_type_is_pdf_witness:
  "(\<exists>request.
      Body (wrapped (get_shipping_documents_request PrintType_exact ''329014521622''
         (example_shipment ''US'' None) example_purolator_settings))
        = \<lparr>body_anytypeobjs = [request]\<rparr>
      \<and> OutputType request = Some ''PDF'')
   \<and> \<not> suffix ''Thermal'' (document_type PrintType_exact (example_shipment ''US'' None))"
proof -
  have absent: "label_type (example_shipment ''US'' None) = None
                  \<or> label_type (example_shipment ''US'' None) = Some []"
    by (simp add: example_shipment_def)
  have pdf: "PrintType_exact ''PDF'' = Some ''PDF''"
    by (simp add: PrintType_exact_def)
  from missing_label_type_is_pdf [OF absent, of PrintType_exact "''329014521622''"
         example_purolator_settings, THEN conjunct2]
  show ?thesis
    by (simp add: pdf)
qed

end
